theory Spec2Isabelle
  imports Complex_Main
begin

section \<open>The detection map of \<^verbatim>\<open>illicit_detection_app.py\<close>\<close>

text \<open>
  The development embeds \<^verbatim>\<open>create_detection_results_map\<close> (lines 112 to 207 of
  the source). Python floats are modelled as real numbers, decimal literals denoting
  their decimal values. Sums and comparisons are exact, with one exception: the radius of
  a marker (line 176) is computed with the rounding of IEEE 754 binary64 arithmetic, as
  Python computes it, because the order of two radii turns on that rounding. Strings are
  byte lists holding the UTF-8 encoding of the source's literals.

  The function calls into three libraries that are not part of the repository:
  \<^verbatim>\<open>numpy.random\<close> (a global generator that is seeded and then drawn from),
  \<^verbatim>\<open>datetime\<close> (the clock) and the float formatting of f-strings. They are taken
  as a parameter, the record \<open>env\<close>: the generator is a state of type \<open>'s\<close> that every
  draw reads and advances, the clock a state of type \<open>'c\<close>. A draw may raise (numpy
  rejects some arguments), so it returns a sum whose left side is the exception.
\<close>

subsection \<open>Libraries\<close>

datatype error = Raised string

record ('s, 'c) env =
  np_seed :: "nat \<Rightarrow> 's \<Rightarrow> 's"
  np_randint :: "int \<Rightarrow> int \<Rightarrow> 's \<Rightarrow> error + int \<times> 's"
  np_normal :: "real \<Rightarrow> real \<Rightarrow> 's \<Rightarrow> error + real \<times> 's"
  np_uniform :: "real \<Rightarrow> real \<Rightarrow> 's \<Rightarrow> error + real \<times> 's"
  np_choice :: "string list \<Rightarrow> 's \<Rightarrow> error + string \<times> 's"
  now_strftime :: "string \<Rightarrow> 'c \<Rightarrow> string \<times> 'c"
  format_float :: "string \<Rightarrow> real \<Rightarrow> string"

subsection \<open>The objects handed to the map library\<close>

text \<open>
  Each constructor keeps the keyword arguments of the call in the order of the source:
  \<open>TileLayer tiles attr name overlay control\<close>,
  \<open>CircleMarker location radius popup max_width color weight fillColor fillOpacity\<close>,
  \<open>Polygon locations color weight fillOpacity popup\<close> and \<open>MiniMap toggle_display\<close>.
\<close>

datatype child =
    TileLayer string string string bool bool
  | CircleMarker "real list" real string int string int string real
  | Polygon "real list list" string int real string
  | LayerControl
  | MiniMap bool

record folium_map =
  map_location :: "real list"
  zoom_start :: int
  map_tiles :: string
  children :: "child list"

definition add_to :: "child \<Rightarrow> folium_map \<Rightarrow> folium_map" where
  "add_to ch m = m\<lparr>children := children m @ [ch]\<rparr>"

subsection \<open>One detection\<close>

text \<open>The local variables of one pass of the loop of lines 137 to 182.\<close>

record detection =
  lat :: real
  lon :: real
  confidence :: real
  activity_type :: string
  color :: string
  alert_level :: string
  detection_time :: string

definition activity_types :: "string list" where
  "activity_types = [''Illegal Mining'', ''Deforestation'', ''Construction'', ''Excavation'']"

text \<open>Lines 148 to 157: the colour and the alert level of a confidence.\<close>

definition determine_alert_level :: "real \<Rightarrow> string \<times> string" where
  "determine_alert_level conf =
     (if conf \<ge> 0.8 then (''red'', ''HIGH'')
      else if conf \<ge> 0.6 then (''orange'', ''MEDIUM'')
      else (''yellow'', ''LOW''))"

definition classifyAlertLevel :: "real \<Rightarrow> string" where
  "classifyAlertLevel conf = snd (determine_alert_level conf)"

subsection \<open>Double precision arithmetic\<close>

text \<open>
  A Python float is an IEEE 754 binary64 number, and every arithmetic operation returns
  the exact result rounded to the nearest such number, ties going to the even significand.
  \<open>round_double\<close> is this rounding on the reals. A finite double is an integer multiple of
  \<open>2 ^ (e - 52)\<close>, where \<open>e\<close> is the exponent of its binade, from \<open>-1022\<close> (which also
  holds the subnormal numbers) to \<open>1023\<close>. \<open>float_exponent\<close> finds the exponent of a real
  by counting up or down from 0, within these limits. A result of magnitude \<open>2 ^ 1024\<close>
  or more is an infinity in Python; it has no value in this model, which is used below
  that magnitude only.
\<close>

definition pow2 :: "int \<Rightarrow> real" where
  "pow2 e = (if 0 \<le> e then 2 ^ nat e else 1 / 2 ^ nat (- e))"

definition round_half_even :: "real \<Rightarrow> int" where
  "round_half_even t =
     (let f = \<lfloor>t\<rfloor>; d = t - of_int f
      in if d < 1 / 2 then f else if 1 / 2 < d then f + 1 else if even f then f else f + 1)"

fun expo_up :: "nat \<Rightarrow> int \<Rightarrow> real \<Rightarrow> int" where
  "expo_up 0 e x = e"
| "expo_up (Suc k) e x = (if pow2 (e + 1) \<le> x then expo_up k (e + 1) x else e)"

fun expo_down :: "nat \<Rightarrow> int \<Rightarrow> real \<Rightarrow> int" where
  "expo_down 0 e x = e"
| "expo_down (Suc k) e x = (if x < pow2 e then expo_down k (e - 1) x else e)"

definition float_exponent :: "real \<Rightarrow> int" where
  "float_exponent x =
     (if 1 \<le> \<bar>x\<bar> then expo_up 1023 0 \<bar>x\<bar> else expo_down 1021 (- 1) \<bar>x\<bar>)"

definition round_double :: "real \<Rightarrow> real" where
  "round_double x =
     (let u = pow2 (float_exponent x - 52) in of_int (round_half_even (x / u)) * u)"

text \<open>
  Line 176: the radius of a marker, \<^verbatim>\<open>8 + confidence * 10\<close>. Python multiplies
  first and rounds, then adds and rounds; the integers 8 and 10 are exact as floats.
\<close>

definition marker_radius :: "real \<Rightarrow> real" where
  "marker_radius conf = round_double (8 + round_double (conf * 10))"

text \<open>
  Lines 160 to 172: the popup of a marker, an f-string. The two emoji and the degree sign
  are written as their UTF-8 bytes; \<open>{confidence:.1%}\<close> and \<open>{lat:.4f}\<close> go through
  the float formatting of the environment with the format specification of the source.
\<close>

definition nl :: string where
  "nl = [CHR 0x0A]"

definition police_light :: string where
  "police_light = [CHR 0xF0, CHR 0x9F, CHR 0x9A, CHR 0xA8]"

definition clipboard :: string where
  "clipboard = [CHR 0xF0, CHR 0x9F, CHR 0x93, CHR 0x8B]"

definition degree :: string where
  "degree = [CHR 0xC2, CHR 0xB0]"

definition popup_content :: "('s, 'c) env \<Rightarrow> detection \<Rightarrow> string" where
  \<open>popup_content env d = concat
     [nl,
      ''        <div style="min-width: 200px;">'', nl,
      ''            <h4>'', police_light, '' '', activity_type d, '' Detected</h4>'', nl,
      ''            <p><b>Alert Level:</b> '', alert_level d, ''</p>'', nl,
      ''            <p><b>Confidence:</b> '', format_float env ''.1%'' (confidence d), ''</p>'', nl,
      ''            <p><b>Location:</b> '', format_float env ''.4f'' (lat d), degree, ''N, '',
        format_float env ''.4f'' (lon d), degree, ''W</p>'', nl,
      ''            <p><b>Detection Time:</b> '', detection_time d, ''</p>'', nl,
      ''            <hr>'', nl,
      ''            <button style="background:#007cba;color:white;border:none;padding:5px 10px;border-radius:3px;">'', nl,
      ''                '', clipboard, '' Create Case File'', nl,
      ''            </button>'', nl,
      ''        </div>'', nl,
      ''        '']\<close>

text \<open>Lines 174 to 182: the marker of a detection.\<close>

definition circle_marker :: "('s, 'c) env \<Rightarrow> detection \<Rightarrow> child" where
  "circle_marker env d =
     CircleMarker [lat d, lon d] (marker_radius (confidence d)) (popup_content env d) 250
       ''black'' 2 (color d) 0.7"

text \<open>
  Lines 138 to 166, one pass of the loop: the four draws in the order of the source, the
  alert level, and the clock read while the popup is formatted. The centre, the bounds of
  the confidence and the two standard deviations are the literals of the source, taken as
  arguments here. An exception of a draw leaves the function.
\<close>

definition detect_one ::
  "('s, 'c) env \<Rightarrow> real \<times> real \<Rightarrow> real \<times> real \<Rightarrow> real \<times> real \<Rightarrow> 's \<times> 'c
     \<Rightarrow> error + detection \<times> ('s \<times> 'c)" where
  "detect_one env center confidenceRange jitterStdDev w =
     (case np_normal env 0 (fst jitterStdDev) (fst w) of
        Inl e \<Rightarrow> Inl e
      | Inr (dlat, s1) \<Rightarrow>
     (case np_normal env 0 (snd jitterStdDev) s1 of
        Inl e \<Rightarrow> Inl e
      | Inr (dlon, s2) \<Rightarrow>
     (case np_uniform env (fst confidenceRange) (snd confidenceRange) s2 of
        Inl e \<Rightarrow> Inl e
      | Inr (conf, s3) \<Rightarrow>
     (case np_choice env activity_types s3 of
        Inl e \<Rightarrow> Inl e
      | Inr (act, s4) \<Rightarrow>
          (let (col, lvl) = determine_alert_level conf;
               (t, c') = now_strftime env ''%Y-%m-%d %H:%M'' (snd w)
           in Inr (\<lparr>lat = fst center + dlat, lon = snd center + dlon, confidence = conf,
                     activity_type = act, color = col, alert_level = lvl,
                     detection_time = t\<rparr>, (s4, c')))))))"

text \<open>The loop \<^verbatim>\<open>for i in range(n)\<close>, for a number of passes.\<close>

fun detection_loop ::
  "('s, 'c) env \<Rightarrow> real \<times> real \<Rightarrow> real \<times> real \<Rightarrow> real \<times> real \<Rightarrow> nat \<Rightarrow> 's \<times> 'c
     \<Rightarrow> error + detection list \<times> ('s \<times> 'c)" where
  "detection_loop env center confidenceRange jitterStdDev 0 w = Inr ([], w)"
| "detection_loop env center confidenceRange jitterStdDev (Suc n) w =
     (case detect_one env center confidenceRange jitterStdDev w of
        Inl e \<Rightarrow> Inl e
      | Inr (d, w') \<Rightarrow>
          (case detection_loop env center confidenceRange jitterStdDev n w' of
             Inl e \<Rightarrow> Inl e
           | Inr (ds, w'') \<Rightarrow> Inr (d # ds, w'')))"

text \<open>
  The loop of lines 137 to 182 for an integer count. Python's \<^verbatim>\<open>range(count)\<close> is
  empty when \<open>count \<le> 0\<close> and has \<open>count\<close> elements otherwise; the source checks
  none of the values it loops with.
\<close>

definition generate ::
  "('s, 'c) env \<Rightarrow> real \<times> real \<Rightarrow> int \<Rightarrow> real \<times> real \<Rightarrow> real \<times> real \<Rightarrow> 's \<times> 'c
     \<Rightarrow> error + detection list \<times> ('s \<times> 'c)" where
  "generate env center count confidenceRange jitterStdDev w =
     (if count \<le> 0 then Inr ([], w)
      else detection_loop env center confidenceRange jitterStdDev (nat count) w)"

subsection \<open>The map\<close>

text \<open>Lines 185 to 190.\<close>

definition roi_coords :: "real \<Rightarrow> real \<Rightarrow> real list list" where
  "roi_coords center_lat center_lon =
     [[center_lat + 0.03, center_lon - 0.04],
      [center_lat + 0.03, center_lon + 0.04],
      [center_lat - 0.03, center_lon + 0.04],
      [center_lat - 0.03, center_lon - 0.04]]"

text \<open>
  Lines 112 to 207. The two arguments may be of any type: the body never mentions them.
  The markers are added in the order of the loop, then the boundary, the layer control
  and the minimap.
\<close>

definition create_detection_results_map ::
  "('s, 'c) env \<Rightarrow> 'd \<Rightarrow> 'cfg \<Rightarrow> 's \<times> 'c \<Rightarrow> error + folium_map \<times> ('s \<times> 'c)" where
  "create_detection_results_map env detection_data config w =
     (let center_lat = 40.0155; center_lon = - 105.2705;
          detection_map = \<lparr>map_location = [center_lat, center_lon], zoom_start = 12,
                            map_tiles = ''OpenStreetMap'', children = []\<rparr>;
          detection_map = add_to (TileLayer ''https://mt1.google.com/vt/lyrs=s&x={x}&y={y}&z={z}''
                            ''Google Satellite'' ''Satellite Imagery'' False True) detection_map;
          s0 = np_seed env 42 (fst w)
      in case np_randint env 5 15 s0 of
           Inl e \<Rightarrow> Inl e
         | Inr (n_detections, s1) \<Rightarrow>
             (case generate env (center_lat, center_lon) n_detections (0.3, 0.95) (0.02, 0.03)
                     (s1, snd w) of
                Inl e \<Rightarrow> Inl e
              | Inr (ds, w') \<Rightarrow>
                  (let detection_map = foldl (\<lambda>m d. add_to (circle_marker env d) m) detection_map ds;
                       detection_map = add_to (Polygon (roi_coords center_lat center_lon) ''blue'' 3
                                         0.1 ''Operational Zone Boundary'') detection_map;
                       detection_map = add_to LayerControl detection_map;
                       detection_map = add_to (MiniMap True) detection_map
                   in Inr (detection_map, w'))))"

subsection \<open>A small deterministic environment\<close>

text \<open>
  An instance of the environment that can be run: the generator state is a counter, each
  draw is computed from it and advances it by one, and the clock ticks at every reading.
  Like numpy it rejects a negative scale, an empty integer interval and an empty choice.
  The theorems below hold for every environment; this one instantiates them.
\<close>

definition counter_env :: "(nat, nat) env" where
  "counter_env =
     \<lparr>np_seed = (\<lambda>n s. n),
      np_randint = (\<lambda>low high s.
        if low < high then Inr (low + int s mod (high - low), Suc s)
        else Inl (Raised ''low >= high'')),
      np_normal = (\<lambda>loc scale s.
        if scale < 0 then Inl (Raised ''scale < 0'')
        else Inr (loc + scale * (real (s mod 5) - 2) / 2, Suc s)),
      np_uniform = (\<lambda>low high s. Inr (low + (high - low) * real (s mod 8) / 8, Suc s)),
      np_choice = (\<lambda>xs s.
        if xs = [] then Inl (Raised ''a must be non-empty'')
        else Inr (xs ! (s mod length xs), Suc s)),
      now_strftime = (\<lambda>fmt c. (''2024-01-01 00:00'', Suc c)),
      format_float = (\<lambda>spec x. spec)\<rparr>"

subsection \<open>Predicates on the environment and on the result\<close>

text \<open>
  The draws that \<open>generate\<close> makes with a given confidence range and jitter raise in no
  state of the generator.
\<close>

definition draws_succeed :: "('s, 'c) env \<Rightarrow> real \<times> real \<Rightarrow> real \<times> real \<Rightarrow> bool" where
  "draws_succeed env confidenceRange jitterStdDev \<longleftrightarrow>
     (\<forall>s e. np_normal env 0 (fst jitterStdDev) s \<noteq> Inl e) \<and>
     (\<forall>s e. np_normal env 0 (snd jitterStdDev) s \<noteq> Inl e) \<and>
     (\<forall>s e. np_uniform env (fst confidenceRange) (snd confidenceRange) s \<noteq> Inl e) \<and>
     (\<forall>s e. np_choice env activity_types s \<noteq> Inl e)"

text \<open>
  The contract numpy documents for \<^verbatim>\<open>uniform(low, high)\<close>: a sample of the
  half-open interval from \<open>low\<close> to \<open>high\<close>.
\<close>

definition uniform_within :: "('s, 'c) env \<Rightarrow> real \<Rightarrow> real \<Rightarrow> bool" where
  "uniform_within env low high \<longleftrightarrow>
     (\<forall>s v s'. np_uniform env low high s = Inr (v, s') \<longrightarrow> low \<le> v \<and> v < high)"

text \<open>The four drawn components of a detection.\<close>

definition detection_core :: "detection \<Rightarrow> real \<times> real \<times> real \<times> string" where
  "detection_core d = (lat d, lon d, confidence d, activity_type d)"

fun is_polygon :: "child \<Rightarrow> bool" where
  "is_polygon (Polygon ls col wt fo pp) = True"
| "is_polygon ch = False"

section \<open>Properties\<close>

subsection \<open>Auxiliary facts\<close>

lemma classify_cases:
  "classifyAlertLevel c =
     (if 0.8 \<le> c then ''HIGH'' else if 0.6 \<le> c then ''MEDIUM'' else ''LOW'')"
  by (simp add: classifyAlertLevel_def determine_alert_level_def)

lemma not_Inl_Inr: "(\<forall>e. x \<noteq> Inl e) \<Longrightarrow> \<exists>a b. x = Inr (a, b)"
  by (cases x) auto

lemma detect_one_Inr:
  assumes "detect_one env center cr j w = Inr (d, w')"
  obtains dlat s1 dlon s2 conf s3 act s4 where
    "np_normal env 0 (fst j) (fst w) = Inr (dlat, s1)"
    "np_normal env 0 (snd j) s1 = Inr (dlon, s2)"
    "np_uniform env (fst cr) (snd cr) s2 = Inr (conf, s3)"
    "np_choice env activity_types s3 = Inr (act, s4)"
    "d = \<lparr>lat = fst center + dlat, lon = snd center + dlon, confidence = conf,
          activity_type = act, color = fst (determine_alert_level conf),
          alert_level = snd (determine_alert_level conf),
          detection_time = fst (now_strftime env ''%Y-%m-%d %H:%M'' (snd w))\<rparr>"
    "w' = (s4, snd (now_strftime env ''%Y-%m-%d %H:%M'' (snd w)))"
  using assms unfolding detect_one_def
  by (auto split: sum.splits prod.splits)

lemma detect_one_Inl:
  assumes "detect_one env center cr j w = Inl e"
  shows "\<exists>s. np_normal env 0 (fst j) s = Inl e \<or> np_normal env 0 (snd j) s = Inl e \<or>
           np_uniform env (fst cr) (snd cr) s = Inl e \<or> np_choice env activity_types s = Inl e"
  using assms unfolding detect_one_def
  by (auto split: sum.splits prod.splits)

lemma detect_one_succeeds:
  assumes "draws_succeed env cr j"
  shows "\<exists>d w'. detect_one env center cr j w = Inr (d, w')"
proof -
  from assms obtain dlat s1 where 1: "np_normal env 0 (fst j) (fst w) = Inr (dlat, s1)"
    unfolding draws_succeed_def by (meson not_Inl_Inr)
  from assms obtain dlon s2 where 2: "np_normal env 0 (snd j) s1 = Inr (dlon, s2)"
    unfolding draws_succeed_def by (meson not_Inl_Inr)
  from assms obtain conf s3 where 3: "np_uniform env (fst cr) (snd cr) s2 = Inr (conf, s3)"
    unfolding draws_succeed_def by (meson not_Inl_Inr)
  from assms obtain act s4 where 4: "np_choice env activity_types s3 = Inr (act, s4)"
    unfolding draws_succeed_def by (meson not_Inl_Inr)
  show ?thesis
    unfolding detect_one_def by (simp add: 1 2 3 4 split: prod.splits)
qed

lemma detection_loop_length:
  "detection_loop env center cr j n w = Inr (ds, w') \<Longrightarrow> length ds = n"
  by (induction n arbitrary: w ds) (auto split: sum.splits)

lemma detection_loop_succeeds:
  assumes "draws_succeed env cr j"
  shows "\<exists>ds w'. detection_loop env center cr j n w = Inr (ds, w')"
proof (induction n arbitrary: w)
  case 0
  show ?case by simp
next
  case (Suc n)
  from detect_one_succeeds [OF assms] obtain d w1
    where 1: "detect_one env center cr j w = Inr (d, w1)" by blast
  from Suc obtain ds w2 where 2: "detection_loop env center cr j n w1 = Inr (ds, w2)" by blast
  show ?case by (simp add: 1 2)
qed

lemma detection_loop_Inl:
  "detection_loop env center cr j n w = Inl e \<Longrightarrow>
     \<exists>w0. detect_one env center cr j w0 = Inl e"
  by (induction n arbitrary: w) (auto split: sum.splits)

lemma detection_loop_all:
  assumes step: "\<And>w d w'. detect_one env center cr j w = Inr (d, w') \<Longrightarrow> P d"
  shows "detection_loop env center cr j n w = Inr (ds, w') \<Longrightarrow> \<forall>d\<in>set ds. P d"
proof (induction n arbitrary: w ds)
  case 0
  then show ?case by simp
next
  case (Suc n)
  from Suc.prems obtain d wa dsa where
    a: "detect_one env center cr j w = Inr (d, wa)" and
    b: "detection_loop env center cr j n wa = Inr (dsa, w')" and
    c: "ds = d # dsa"
    by (auto split: sum.splits)
  from step [OF a] Suc.IH [OF b] c show ?case by simp
qed

lemma detection_loop_prefix:
  "detection_loop env center cr j n w = Inr (ds, w') \<Longrightarrow> k \<le> n \<Longrightarrow>
     \<exists>w''. detection_loop env center cr j k w = Inr (take k ds, w'')"
proof (induction n arbitrary: w ds k)
  case 0
  then show ?case by simp
next
  case (Suc n)
  show ?case
  proof (cases k)
    case 0
    then show ?thesis by simp
  next
    case (Suc k')
    with Suc.prems Suc.IH show ?thesis
      by (fastforce split: sum.splits)
  qed
qed

lemma detection_loop_nth:
  "detection_loop env center cr j n w = Inr (ds, w') \<Longrightarrow> i < n \<Longrightarrow>
     \<exists>wi wi'. detection_loop env center cr j i w = Inr (take i ds, wi) \<and>
        detect_one env center cr j wi = Inr (ds ! i, wi')"
proof (induction n arbitrary: w ds i)
  case 0
  then show ?case by simp
next
  case (Suc n)
  from Suc.prems obtain d wa dsa where
    a: "detect_one env center cr j w = Inr (d, wa)" and
    b: "detection_loop env center cr j n wa = Inr (dsa, w')" and
    c: "ds = d # dsa"
    by (auto split: sum.splits)
  show ?case
  proof (cases i)
    case 0
    with a c show ?thesis by simp
  next
    case (Suc i')
    with Suc.prems have "i' < n" by simp
    from Suc.IH [OF b this] obtain wi wi' where
      "detection_loop env center cr j i' wa = Inr (take i' dsa, wi)"
      "detect_one env center cr j wi = Inr (dsa ! i', wi')" by blast
    with a c Suc show ?thesis by simp
  qed
qed

lemma detect_one_clock:
  assumes "detect_one env center cr j (s, c1) = Inr (d1, w1)"
  shows "\<exists>d2 c2'. detect_one env center cr j (s, c2) = Inr (d2, (fst w1, c2')) \<and>
           detection_core d2 = detection_core d1"
  using assms unfolding detect_one_def detection_core_def
  by (auto split: sum.splits prod.splits)

lemma detection_loop_clock:
  "detection_loop env center cr j n (s, c1) = Inr (ds1, w1) \<Longrightarrow>
     \<exists>ds2 c2'. detection_loop env center cr j n (s, c2) = Inr (ds2, (fst w1, c2')) \<and>
        map detection_core ds2 = map detection_core ds1"
proof (induction n arbitrary: s c1 c2 ds1 w1)
  case 0
  then show ?case by auto
next
  case (Suc n)
  from Suc.prems obtain d1 wa dsa where
    a: "detect_one env center cr j (s, c1) = Inr (d1, wa)" and
    b: "detection_loop env center cr j n wa = Inr (dsa, w1)" and
    c: "ds1 = d1 # dsa"
    by (auto split: sum.splits)
  from detect_one_clock [OF a, of c2] obtain d2 c2a where
    d: "detect_one env center cr j (s, c2) = Inr (d2, (fst wa, c2a))" and
    e: "detection_core d2 = detection_core d1" by blast
  from b have "detection_loop env center cr j n (fst wa, snd wa) = Inr (dsa, w1)" by simp
  from Suc.IH [OF this, of c2a] obtain dsb c2b where
    f: "detection_loop env center cr j n (fst wa, c2a) = Inr (dsb, (fst w1, c2b))" and
    g: "map detection_core dsb = map detection_core dsa" by blast
  show ?case by (simp add: c d e f g)
qed

lemma generate_Inr_loop:
  "generate env center count cr j w = Inr (ds, w') \<Longrightarrow>
     detection_loop env center cr j (nat count) w = Inr (ds, w')"
  by (auto simp: generate_def split: if_splits)

lemma generate_length:
  "generate env center count cr j w = Inr (ds, w') \<Longrightarrow> length ds = nat count"
  by (drule generate_Inr_loop) (rule detection_loop_length)

lemma generate_all:
  assumes "\<And>w d w'. detect_one env center cr j w = Inr (d, w') \<Longrightarrow> P d"
    and "generate env center count cr j w = Inr (ds, w')"
  shows "\<forall>d\<in>set ds. P d"
  using detection_loop_all [of env center cr j P, OF assms(1) generate_Inr_loop [OF assms(2)]] .

lemma generate_succeeds:
  assumes "draws_succeed env cr j"
  shows "\<exists>ds w'. generate env center count cr j w = Inr (ds, w')"
  using detection_loop_succeeds [OF assms] by (simp add: generate_def)

lemma draws_succeed_counter_env: "draws_succeed counter_env (0.3, 0.95) (0.02, 0.03)"
  by (simp add: draws_succeed_def counter_env_def activity_types_def)

lemma children_add_to: "children (add_to ch m) = children m @ [ch]"
  by (simp add: add_to_def)

lemma map_location_add_to: "map_location (add_to ch m) = map_location m"
  by (simp add: add_to_def)

lemma children_foldl:
  "children (foldl (\<lambda>m d. add_to (circle_marker env d) m) m0 ds) =
     children m0 @ map (circle_marker env) ds"
  by (induction ds arbitrary: m0) (simp_all add: children_add_to)

lemma map_location_foldl:
  "map_location (foldl (\<lambda>m d. add_to (circle_marker env d) m) m0 ds) = map_location m0"
  by (induction ds arbitrary: m0) (simp_all add: map_location_add_to)

lemma create_Inr:
  assumes "create_detection_results_map env dd cfg w = Inr (m, w')"
  obtains n s1 ds where
    "np_randint env 5 15 (np_seed env 42 (fst w)) = Inr (n, s1)"
    "generate env (40.0155, - 105.2705) n (0.3, 0.95) (0.02, 0.03) (s1, snd w) = Inr (ds, w')"
    "children m =
       TileLayer ''https://mt1.google.com/vt/lyrs=s&x={x}&y={y}&z={z}'' ''Google Satellite''
         ''Satellite Imagery'' False True
       # map (circle_marker env) ds @
       [Polygon (roi_coords 40.0155 (- 105.2705)) ''blue'' 3 0.1 ''Operational Zone Boundary'',
        LayerControl, MiniMap True]"
    "map_location m = [40.0155, - 105.2705]"
  using assms unfolding create_detection_results_map_def Let_def
  by (auto split: sum.splits
        simp: children_add_to map_location_add_to children_foldl map_location_foldl)

lemma filter_polygon_markers: "filter is_polygon (map (circle_marker env) ds) = []"
  by (induction ds) (simp_all add: circle_marker_def)

lemma create_succeeds:
  assumes "np_randint env 5 15 (np_seed env 42 (fst w)) = Inr (n, s1)"
    and "draws_succeed env (0.3, 0.95) (0.02, 0.03)"
  shows "\<exists>m w'. create_detection_results_map env dd cfg w = Inr (m, w')"
proof -
  from generate_succeeds [OF assms(2)] obtain ds w' where
    "generate env (40.0155, - 105.2705) n (0.3, 0.95) (0.02, 0.03) (s1, snd w) = Inr (ds, w')"
    by blast
  with assms(1) show ?thesis
    by (simp add: create_detection_results_map_def Let_def)
qed

lemma uniform_within_counter_env: "uniform_within counter_env 0.3 0.95"
proof -
  have "real (s mod 8) < 8" for s :: nat
    using mod_less_divisor [of 8 s] by (simp del: mod_less_divisor)
  moreover have "0 \<le> real (s mod 8)" for s :: nat by simp
  ultimately show ?thesis
    unfolding uniform_within_def counter_env_def
    by (auto simp: field_simps)
qed

lemma generate_counter_env_2:
  "\<exists>d1 d2 w'. generate counter_env (40.0155, - 105.2705) 2 (0.3, 0.95) (0.02, 0.03) (0, 0) =
      Inr ([d1, d2], w') \<and> confidence d1 = 0.4625 \<and> confidence d2 = 0.7875"
proof -
  have "case generate counter_env (40.0155, - 105.2705) 2 (0.3, 0.95) (0.02, 0.03) (0, 0) of
      Inl e \<Rightarrow> False | Inr (ds, w') \<Rightarrow> map confidence ds = [0.4625, 0.7875]"
    by code_simp
  then obtain ds w' where
    g: "generate counter_env (40.0155, - 105.2705) 2 (0.3, 0.95) (0.02, 0.03) (0, 0) = Inr (ds, w')"
    and m: "map confidence ds = [0.4625, 0.7875]"
    by (auto split: sum.splits)
  from m obtain d1 d2 where "ds = [d1, d2]" "confidence d1 = 0.4625" "confidence d2 = 0.7875"
    by (auto simp: map_eq_Cons_conv)
  with g show ?thesis by blast
qed

subsection \<open>Rounding to a double is monotone\<close>































subsection \<open>The alert level\<close>

text \<open>
  Claim C1. The alert level is a function of the confidence alone, decided by the first
  threshold that matches: a confidence from 0 up to but excluding 0.6 is LOW, one from 0.6
  up to but excluding 0.8 is MEDIUM, one of 0.8 or more is HIGH. At the boundaries, 0.8 is
  HIGH, 0.6 is MEDIUM and 0.5999999 is LOW.
\<close>

theorem classifyAlertLevel_thresholds:
  "(0 \<le> c \<and> c < 0.6 \<longrightarrow> classifyAlertLevel c = ''LOW'') \<and>
   (0.6 \<le> c \<and> c < 0.8 \<longrightarrow> classifyAlertLevel c = ''MEDIUM'') \<and>
   (0.8 \<le> c \<longrightarrow> classifyAlertLevel c = ''HIGH'') \<and>
   classifyAlertLevel 0.8 = ''HIGH'' \<and>
   classifyAlertLevel 0.6 = ''MEDIUM'' \<and>
   classifyAlertLevel 0.5999999 = ''LOW''"
  by (simp add: classify_cases)

theorem classifyAlertLevel_thresholds_witness:
  "classifyAlertLevel 0.3 = ''LOW'' \<and> classifyAlertLevel 0.7 = ''MEDIUM'' \<and>
   classifyAlertLevel 0.95 = ''HIGH''"
  using classifyAlertLevel_thresholds [of "0.3"] classifyAlertLevel_thresholds [of "0.7"]
    classifyAlertLevel_thresholds [of "0.95"]
  by simp

text \<open>
  Claim C9. The classification is defined for every real confidence and never fails: every
  confidence below 0.6, negative ones included, is LOW, every confidence of 0.8 or more,
  also above 1, is HIGH, and the result is always one of the three levels.
\<close>

theorem classifyAlertLevel_total:
  "(c < 0.6 \<longrightarrow> classifyAlertLevel c = ''LOW'') \<and>
   (0.8 \<le> c \<longrightarrow> classifyAlertLevel c = ''HIGH'') \<and>
   classifyAlertLevel c \<in> {''LOW'', ''MEDIUM'', ''HIGH''}"
  by (simp add: classify_cases)

theorem classifyAlertLevel_total_witness:
  "classifyAlertLevel (- 1) = ''LOW'' \<and> classifyAlertLevel 2 = ''HIGH''"
  using classifyAlertLevel_total [of "- 1"] classifyAlertLevel_total [of 2] by simp

subsection \<open>The marker\<close>




subsection \<open>The generator\<close>

text \<open>
  Claim C2, as the specification states it: \<open>generate\<close> fails with InvalidArgument exactly
  when a parameter is malformed, in particular for a count of \<open>-1\<close>. The loop validates
  nothing: with a count of \<open>-1\<close> it returns the empty sequence.
\<close>

theorem generate_negative_count_counterexample:
  "generate counter_env (40.0155, - 105.2705) (- 1) (0.3, 0.95) (0.02, 0.03) (0, 0) =
     Inr ([], (0, 0))"
  by (simp add: generate_def)

text \<open>
  Claim C2, amended. \<open>generate\<close> has no error of its own and checks no parameter: for
  every count of zero or less it returns the empty sequence and leaves the generator and
  the clock as they were, whatever the other parameters are; and when it fails, the count
  is positive and the error is one that a draw of the random source raised.
\<close>

theorem generate_fails_only_in_draws:
  "(count \<le> 0 \<longrightarrow> generate env center count cr j w = Inr ([], w)) \<and>
   (generate env center count cr j w = Inl e \<longrightarrow>
      0 < count \<and>
      (\<exists>s. np_normal env 0 (fst j) s = Inl e \<or> np_normal env 0 (snd j) s = Inl e \<or>
           np_uniform env (fst cr) (snd cr) s = Inl e \<or> np_choice env activity_types s = Inl e))"
proof -
  have "0 < count \<and>
      (\<exists>s. np_normal env 0 (fst j) s = Inl e \<or> np_normal env 0 (snd j) s = Inl e \<or>
           np_uniform env (fst cr) (snd cr) s = Inl e \<or> np_choice env activity_types s = Inl e)"
    if a: "generate env center count cr j w = Inl e"
  proof -
    from a have pos: "0 < count" by (auto simp: generate_def split: if_splits)
    with a have "detection_loop env center cr j (nat count) w = Inl e"
      by (simp add: generate_def)
    from detection_loop_Inl [OF this] obtain w0 where "detect_one env center cr j w0 = Inl e" ..
    from detect_one_Inl [OF this] pos show ?thesis by simp
  qed
  then show ?thesis by (simp add: generate_def)
qed

theorem generate_fails_only_in_draws_witness:
  "generate counter_env (40.0155, - 105.2705) (- 1) (0.3, 0.95) (- 0.02, 0.03) (0, 0) =
     Inr ([], (0, 0)) \<and>
   generate counter_env (40.0155, - 105.2705) 1 (0.3, 0.95) (- 0.02, 0.03) (0, 0) =
     Inl (Raised ''scale < 0'') \<and>
   np_normal counter_env 0 (- 0.02) 0 = Inl (Raised ''scale < 0'')"
proof -
  have a: "generate counter_env (40.0155, - 105.2705) 1 (0.3, 0.95) (- 0.02, 0.03) (0, 0) =
      Inl (Raised ''scale < 0'')"
    by (simp add: generate_def detect_one_def counter_env_def)
  have b: "np_normal counter_env 0 (- 0.02) 0 = Inl (Raised ''scale < 0'')"
    by (simp add: counter_env_def)
  from generate_fails_only_in_draws [of "- 1" counter_env "(40.0155, - 105.2705)" "(0.3, 0.95)"
      "(- 0.02, 0.03)" "(0, 0)"]
    a b show ?thesis by simp
qed

text \<open>
  Claim C3. \<open>generate\<close> is deterministic given its random source. Two calls with the same
  parameters from the same generator state return the same sequence of latitudes,
  longitudes, confidences and activity types, in the same order, and leave the generator
  in the same state, whatever the clock shows. Each point consumes the source in the order
  latitude jitter, longitude jitter, confidence, activity type: when these four draws, made
  one after the other from the state \<open>s\<close>, give \<open>dlat\<close>, \<open>dlon\<close>, \<open>conf\<close> and \<open>act\<close>,
  the first point is the centre moved by \<open>dlat\<close> and \<open>dlon\<close> with confidence \<open>conf\<close> and
  type \<open>act\<close>, and the following points are generated from the state after the fourth draw.
\<close>

theorem generate_deterministic_draw_order:
  "(generate env center count cr j (s, c1) = Inr (ds1, w1) \<longrightarrow>
      (\<exists>ds2 c2'. generate env center count cr j (s, c2) = Inr (ds2, (fst w1, c2')) \<and>
         map detection_core ds2 = map detection_core ds1)) \<and>
   (np_normal env 0 (fst j) s = Inr (dlat, s1) \<and>
    np_normal env 0 (snd j) s1 = Inr (dlon, s2) \<and>
    np_uniform env (fst cr) (snd cr) s2 = Inr (conf, s3) \<and>
    np_choice env activity_types s3 = Inr (act, s4) \<and>
    0 \<le> n \<and>
    generate env center n cr j (s4, snd (now_strftime env ''%Y-%m-%d %H:%M'' c)) = Inr (ds, w')
    \<longrightarrow> (\<exists>d. generate env center (n + 1) cr j (s, c) = Inr (d # ds, w') \<and>
           detection_core d = (fst center + dlat, snd center + dlon, conf, act)))"
proof (intro conjI impI)
  assume a: "generate env center count cr j (s, c1) = Inr (ds1, w1)"
  show "\<exists>ds2 c2'. generate env center count cr j (s, c2) = Inr (ds2, (fst w1, c2')) \<and>
         map detection_core ds2 = map detection_core ds1"
  proof (cases "count \<le> 0")
    case True
    with a show ?thesis by (auto simp: generate_def)
  next
    case False
    with a have "detection_loop env center cr j (nat count) (s, c1) = Inr (ds1, w1)"
      by (simp add: generate_def)
    from detection_loop_clock [OF this, of c2] False show ?thesis
      by (simp add: generate_def)
  qed
next
  assume a: "np_normal env 0 (fst j) s = Inr (dlat, s1) \<and>
    np_normal env 0 (snd j) s1 = Inr (dlon, s2) \<and>
    np_uniform env (fst cr) (snd cr) s2 = Inr (conf, s3) \<and>
    np_choice env activity_types s3 = Inr (act, s4) \<and>
    0 \<le> n \<and>
    generate env center n cr j (s4, snd (now_strftime env ''%Y-%m-%d %H:%M'' c)) = Inr (ds, w')"
  then have l: "detection_loop env center cr j (nat n)
      (s4, snd (now_strftime env ''%Y-%m-%d %H:%M'' c)) = Inr (ds, w')"
    by (simp add: generate_Inr_loop)
  from a have n: "nat (n + 1) = Suc (nat n)" by (simp add: nat_add_distrib)
  from a l show "\<exists>d. generate env center (n + 1) cr j (s, c) = Inr (d # ds, w') \<and>
           detection_core d = (fst center + dlat, snd center + dlon, conf, act)"
    by (simp add: generate_def n detect_one_def detection_core_def case_prod_beta)
qed

theorem generate_deterministic_draw_order_witness:
  "np_normal counter_env 0 0.02 0 = Inr (- 0.02, 1) \<and>
   np_normal counter_env 0 0.03 1 = Inr (- 0.015, 2) \<and>
   np_uniform counter_env 0.3 0.95 2 = Inr (0.4625, 3) \<and>
   np_choice counter_env activity_types 3 = Inr (''Excavation'', 4) \<and>
   (\<exists>d. generate counter_env (40.0155, - 105.2705) 1 (0.3, 0.95) (0.02, 0.03) (0, 0) =
          Inr ([d], (4, 1)) \<and>
        detection_core d = (39.9955, - 105.2855, 0.4625, ''Excavation'')) \<and>
   (\<exists>ds1 w1 ds2 c2'.
      generate counter_env (40.0155, - 105.2705) 1 (0.3, 0.95) (0.02, 0.03) (0, 0) = Inr (ds1, w1) \<and>
      generate counter_env (40.0155, - 105.2705) 1 (0.3, 0.95) (0.02, 0.03) (0, 5) =
        Inr (ds2, (fst w1, c2')) \<and>
      map detection_core ds2 = map detection_core ds1)"
proof -
  have 1: "np_normal counter_env 0 0.02 0 = Inr (- 0.02, 1)"
    and 2: "np_normal counter_env 0 0.03 1 = Inr (- 0.015, 2)"
    and 3: "np_uniform counter_env 0.3 0.95 2 = Inr (0.4625, 3)"
    and 4: "np_choice counter_env activity_types 3 = Inr (''Excavation'', 4)"
    and 5: "snd (now_strftime counter_env ''%Y-%m-%d %H:%M'' 0) = 1"
    by (simp_all add: counter_env_def activity_types_def)
  have 6: "generate counter_env (40.0155, - 105.2705) 0 (0.3, 0.95) (0.02, 0.03) (4, 1) =
      Inr ([], (4, 1))"
    by (simp add: generate_def)
  note t = generate_deterministic_draw_order [of counter_env "(40.0155, - 105.2705)" _
      "(0.3, 0.95)" "(0.02, 0.03)" 0 _ _ _ _
      "- 0.02" 1 "- 0.015" 2 "0.4625" 3 "''Excavation''" 4 0 0 "[]" "(4, 1)"]
  from t [THEN conjunct2] 1 2 3 4 5 6 obtain d where
    g: "generate counter_env (40.0155, - 105.2705) 1 (0.3, 0.95) (0.02, 0.03) (0, 0) =
          Inr ([d], (4, 1))"
    and d: "detection_core d = (39.9955, - 105.2855, 0.4625, ''Excavation'')"
    by auto
  from t [of 1 0 "[d]" "(4, 1)" 5, THEN conjunct1] g obtain ds2 c2' where
    "generate counter_env (40.0155, - 105.2705) 1 (0.3, 0.95) (0.02, 0.03) (0, 5) =
        Inr (ds2, (fst (4::nat, 1::nat), c2'))"
    "map detection_core ds2 = map detection_core [d]" by blast
  with 1 2 3 4 g d show ?thesis by blast
qed

text \<open>
  Claim C4. For a count that is not negative, \<open>generate\<close> returns a sequence of exactly
  that many detections, in the order of generation: a run with a smaller count returns the
  initial segment of that length. It returns whenever the draws of the random source do.
  With a count of zero the result is the empty sequence, not an error.
\<close>

theorem generate_returns_count_points:
  "generate env center 0 cr j w = Inr ([], w) \<and>
   (generate env center count cr j w = Inr (ds, w') \<and> 0 \<le> count \<longrightarrow>
      int (length ds) = count \<and>
      (\<forall>k. 0 \<le> k \<and> k \<le> count \<longrightarrow>
         (\<exists>w''. generate env center k cr j w = Inr (take (nat k) ds, w'')))) \<and>
   (draws_succeed env cr j \<and> 0 \<le> count \<longrightarrow>
      (\<exists>ds w'. generate env center count cr j w = Inr (ds, w') \<and> int (length ds) = count))"
proof (intro conjI impI allI)
  show "generate env center 0 cr j w = Inr ([], w)" by (simp add: generate_def)
next
  assume a: "generate env center count cr j w = Inr (ds, w') \<and> 0 \<le> count"
  with generate_length [of env center count cr j w ds w'] show "int (length ds) = count" by simp
next
  fix k :: int
  assume a: "generate env center count cr j w = Inr (ds, w') \<and> 0 \<le> count"
    and k: "0 \<le> k \<and> k \<le> count"
  from a have l: "detection_loop env center cr j (nat count) w = Inr (ds, w')"
    by (simp add: generate_Inr_loop)
  from k have "nat k \<le> nat count" by (intro nat_mono) simp
  from detection_loop_prefix [OF l this] obtain w'' where
    p: "detection_loop env center cr j (nat k) w = Inr (take (nat k) ds, w'')" ..
  show "\<exists>w''. generate env center k cr j w = Inr (take (nat k) ds, w'')"
  proof (cases "k \<le> 0")
    case True
    with k show ?thesis by (simp add: generate_def)
  next
    case False
    with p show ?thesis by (simp add: generate_def)
  qed
next
  assume a: "draws_succeed env cr j \<and> 0 \<le> count"
  then obtain ds w' where g: "generate env center count cr j w = Inr (ds, w')"
    using generate_succeeds [of env cr j center count w] by blast
  with a generate_length [OF g] show
    "\<exists>ds w'. generate env center count cr j w = Inr (ds, w') \<and> int (length ds) = count"
    by simp
qed

theorem generate_returns_count_points_witness:
  "draws_succeed counter_env (0.3, 0.95) (0.02, 0.03) \<and>
   (\<exists>ds w'. generate counter_env (40.0155, - 105.2705) 3 (0.3, 0.95) (0.02, 0.03) (0, 0) = Inr (ds, w') \<and>
      length ds = 3 \<and>
      (\<exists>w''. generate counter_env (40.0155, - 105.2705) 2 (0.3, 0.95) (0.02, 0.03) (0, 0) = Inr (take 2 ds, w''))) \<and>
   generate counter_env (40.0155, - 105.2705) 0 (0.3, 0.95) (0.02, 0.03) (0, 0) = Inr ([], (0, 0))"
proof -
  have h: "draws_succeed counter_env (0.3, 0.95) (0.02, 0.03)"
    by (simp add: draws_succeed_def counter_env_def activity_types_def)
  note t = generate_returns_count_points [of counter_env "(40.0155, - 105.2705)" "(0.3, 0.95)"
      "(0.02, 0.03)" "(0, 0)" 3]
  from t [of "[]" "(0, 0)"] h obtain ds w' where
    g: "generate counter_env (40.0155, - 105.2705) 3 (0.3, 0.95) (0.02, 0.03) (0, 0) = Inr (ds, w')"
    by auto
  from t [of ds w'] g have l: "length ds = 3"
    and a: "\<forall>k. 0 \<le> k \<and> k \<le> 3 \<longrightarrow>
      (\<exists>w''. generate counter_env (40.0155, - 105.2705) k (0.3, 0.95) (0.02, 0.03) (0, 0) =
         Inr (take (nat k) ds, w''))"
    by simp_all
  from a [rule_format, of 2] have
    p: "\<exists>w''. generate counter_env (40.0155, - 105.2705) 2 (0.3, 0.95) (0.02, 0.03) (0, 0) = Inr (take 2 ds, w'')"
    by simp
  from t [of ds w'] h g l p show ?thesis by blast
qed

text \<open>
  Claim C5. With the confidence range 0.3 to 0.95, every detection that \<open>generate\<close>
  returns has a confidence of at least 0.3 and below 0.95, and each point has a draw of its
  own: the confidence of the point at position \<open>i\<close> is the value, unchanged, of the call
  \<^verbatim>\<open>uniform(0.3, 0.95)\<close> made on the generator state that the first \<open>i\<close> passes
  and the two normal draws of this pass have left. The random source is assumed to keep
  the contract of \<^verbatim>\<open>uniform\<close>; the law of its samples is its own.
\<close>

theorem generate_confidence_within_range:
  "uniform_within env 0.3 0.95 \<Longrightarrow>
   generate env center count (0.3, 0.95) j w = Inr (ds, w') \<Longrightarrow>
     \<forall>i<length ds.
        0.3 \<le> confidence (ds ! i) \<and> confidence (ds ! i) < 0.95 \<and>
        (\<exists>wi dlat s1 dlon s2 s3.
           generate env center (int i) (0.3, 0.95) j w = Inr (take i ds, wi) \<and>
           np_normal env 0 (fst j) (fst wi) = Inr (dlat, s1) \<and>
           np_normal env 0 (snd j) s1 = Inr (dlon, s2) \<and>
           np_uniform env 0.3 0.95 s2 = Inr (confidence (ds ! i), s3))"
proof (intro allI impI)
  fix i
  assume u: "uniform_within env 0.3 0.95"
    and g: "generate env center count (0.3, 0.95) j w = Inr (ds, w')"
    and i: "i < length ds"
  from g have l: "detection_loop env center (0.3, 0.95) j (nat count) w = Inr (ds, w')"
    by (rule generate_Inr_loop)
  from i generate_length [OF g] have "i < nat count" by simp
  from detection_loop_nth [OF l this] obtain wi wi' where
    p: "detection_loop env center (0.3, 0.95) j i w = Inr (take i ds, wi)" and
    d: "detect_one env center (0.3, 0.95) j wi = Inr (ds ! i, wi')" by blast
  from p have gi: "generate env center (int i) (0.3, 0.95) j w = Inr (take i ds, wi)"
    by (cases "i = 0") (simp_all add: generate_def)
  from d obtain dlat s1 dlon s2 s3 where
    n1: "np_normal env 0 (fst j) (fst wi) = Inr (dlat, s1)" and
    n2: "np_normal env 0 (snd j) s1 = Inr (dlon, s2)" and
    un: "np_uniform env 0.3 0.95 s2 = Inr (confidence (ds ! i), s3)"
    by (elim detect_one_Inr) simp
  from u un have "0.3 \<le> confidence (ds ! i) \<and> confidence (ds ! i) < 0.95"
    unfolding uniform_within_def by blast
  with gi n1 n2 un show "0.3 \<le> confidence (ds ! i) \<and> confidence (ds ! i) < 0.95 \<and>
        (\<exists>wi dlat s1 dlon s2 s3.
           generate env center (int i) (0.3, 0.95) j w = Inr (take i ds, wi) \<and>
           np_normal env 0 (fst j) (fst wi) = Inr (dlat, s1) \<and>
           np_normal env 0 (snd j) s1 = Inr (dlon, s2) \<and>
           np_uniform env 0.3 0.95 s2 = Inr (confidence (ds ! i), s3))"
    by blast
qed

theorem generate_confidence_within_range_witness:
  "uniform_within counter_env 0.3 0.95 \<and>
   (\<exists>d1 d2 w'. generate counter_env (40.0155, - 105.2705) 2 (0.3, 0.95) (0.02, 0.03) (0, 0) =
      Inr ([d1, d2], w') \<and>
      0.3 \<le> confidence d1 \<and> confidence d1 < 0.95 \<and> 0.3 \<le> confidence d2 \<and> confidence d2 < 0.95 \<and>
      np_uniform counter_env 0.3 0.95 2 = Inr (confidence d1, 3) \<and>
      np_uniform counter_env 0.3 0.95 6 = Inr (confidence d2, 7))"
proof -
  from generate_counter_env_2 obtain d1 d2 w' where
    g: "generate counter_env (40.0155, - 105.2705) 2 (0.3, 0.95) (0.02, 0.03) (0, 0) =
      Inr ([d1, d2], w')"
    and c: "confidence d1 = 0.4625" "confidence d2 = 0.7875" by blast
  have e: "np_uniform counter_env 0.3 0.95 2 = Inr (0.4625, 3)"
    "np_uniform counter_env 0.3 0.95 6 = Inr (0.7875, 7)"
    by (simp_all add: counter_env_def)
  note t = generate_confidence_within_range [OF uniform_within_counter_env g, rule_format]
  from t [of 0] t [of 1] have
    "0.3 \<le> confidence d1 \<and> confidence d1 < 0.95 \<and> 0.3 \<le> confidence d2 \<and> confidence d2 < 0.95"
    by simp
  with uniform_within_counter_env g c e show ?thesis by auto
qed

text \<open>
  Claim C6. For every detection that \<open>generate\<close> returns, the alert level is the
  classification of its confidence (and the colour goes with it), so two detections with
  the same confidence have the same alert level. The classification is a function of the
  confidence alone: it reads and changes no state.
\<close>

theorem generate_alert_level_consistent:
  "generate env center count cr j w = Inr (ds, w') \<Longrightarrow>
     (\<forall>d\<in>set ds. alert_level d = classifyAlertLevel (confidence d) \<and>
        (color d, alert_level d) = determine_alert_level (confidence d)) \<and>
     (\<forall>d1\<in>set ds. \<forall>d2\<in>set ds.
        confidence d1 = confidence d2 \<longrightarrow> alert_level d1 = alert_level d2)"
proof -
  assume g: "generate env center count cr j w = Inr (ds, w')"
  have "\<forall>d\<in>set ds. alert_level d = classifyAlertLevel (confidence d) \<and>
        (color d, alert_level d) = determine_alert_level (confidence d)"
  proof (rule generate_all [OF _ g])
    fix w d w'
    assume "detect_one env center cr j w = Inr (d, w')"
    then show "alert_level d = classifyAlertLevel (confidence d) \<and>
        (color d, alert_level d) = determine_alert_level (confidence d)"
      by (elim detect_one_Inr) (simp add: classifyAlertLevel_def)
  qed
  then have a: "\<forall>d\<in>set ds. alert_level d = classifyAlertLevel (confidence d) \<and>
        (color d, alert_level d) = determine_alert_level (confidence d)" .
  have b: "\<forall>d1\<in>set ds. \<forall>d2\<in>set ds.
        confidence d1 = confidence d2 \<longrightarrow> alert_level d1 = alert_level d2"
  proof (intro ballI impI)
    fix d1 d2
    assume "d1 \<in> set ds" "d2 \<in> set ds" and eq: "confidence d1 = confidence d2"
    with a have "alert_level d1 = classifyAlertLevel (confidence d1)"
      and "alert_level d2 = classifyAlertLevel (confidence d2)" by blast+
    with eq show "alert_level d1 = alert_level d2" by simp
  qed
  from a b show ?thesis ..
qed

theorem generate_alert_level_consistent_witness:
  "\<exists>d1 d2 w'. generate counter_env (40.0155, - 105.2705) 2 (0.3, 0.95) (0.02, 0.03) (0, 0) =
      Inr ([d1, d2], w') \<and> confidence d1 = 0.4625 \<and> confidence d2 = 0.7875 \<and>
      alert_level d1 = ''LOW'' \<and> alert_level d2 = ''MEDIUM'' \<and>
      color d1 = ''yellow'' \<and> color d2 = ''orange''"
proof -
  from generate_counter_env_2 obtain d1 d2 w' where
    g: "generate counter_env (40.0155, - 105.2705) 2 (0.3, 0.95) (0.02, 0.03) (0, 0) =
      Inr ([d1, d2], w')" and c: "confidence d1 = 0.4625" "confidence d2 = 0.7875" by blast
  from generate_alert_level_consistent [OF g] have
    "\<forall>d\<in>set [d1, d2]. (color d, alert_level d) = determine_alert_level (confidence d)"
    by blast
  then have
    "(color d1, alert_level d1) = determine_alert_level (confidence d1)"
    "(color d2, alert_level d2) = determine_alert_level (confidence d2)" by simp_all
  with c have "color d1 = ''yellow''" "alert_level d1 = ''LOW''"
     "color d2 = ''orange''" "alert_level d2 = ''MEDIUM''"
    by (simp_all add: determine_alert_level_def)
  with g c show ?thesis by blast
qed

subsection \<open>The map and its boundary\<close>

text \<open>
  Claim C8. The boundary handed to the map library is one polygon with four corners, the
  centre moved by 0.03 degrees of latitude and 0.04 degrees of longitude in the four
  combinations of signs.
\<close>

theorem roi_boundary_corners:
  "create_detection_results_map env detection_data config w = Inr (m, w') \<Longrightarrow>
     map_location m = [40.0155, - 105.2705] \<and>
     filter is_polygon (children m) =
       [Polygon [[40.0155 + 0.03, - 105.2705 - 0.04],
                 [40.0155 + 0.03, - 105.2705 + 0.04],
                 [40.0155 - 0.03, - 105.2705 + 0.04],
                 [40.0155 - 0.03, - 105.2705 - 0.04]]
          ''blue'' 3 0.1 ''Operational Zone Boundary'']"
  by (erule create_Inr) (simp add: filter_polygon_markers roi_coords_def)

theorem roi_boundary_corners_witness:
  "\<exists>m w'. create_detection_results_map counter_env () () (7, 0) = Inr (m, w') \<and>
     filter is_polygon (children m) =
       [Polygon [[40.0455, - 105.3105], [40.0455, - 105.2305],
                 [39.9855, - 105.2305], [39.9855, - 105.3105]]
          ''blue'' 3 0.1 ''Operational Zone Boundary'']"
proof -
  have "np_randint counter_env 5 15 (np_seed counter_env 42 (fst (7::nat, 0::nat))) = Inr (7, 43)"
    by (simp add: counter_env_def)
  from create_succeeds [OF this draws_succeed_counter_env, of "()" "()"] obtain m w' where
    c: "create_detection_results_map counter_env () () (7, 0) = Inr (m, w')" by blast
  from roi_boundary_corners [OF c] c show ?thesis by simp
qed

text \<open>
  Claim C10. The function never reads \<open>detection_data\<close> or \<open>config\<close>: from the same
  generator state and clock it returns the same map for any two values of each.
\<close>

theorem create_detection_results_map_ignores_arguments:
  "create_detection_results_map env detection_data1 config1 w =
   create_detection_results_map env detection_data2 config2 w"
  by (simp add: create_detection_results_map_def)

end
